theory Spec2Isabelle
  imports Main
begin

section \<open>Python values and exceptions\<close>

text \<open>
  The setters of \<^verbatim>\<open>DNAAnalysisResult\<close> accept any Python object and decide with
  \<^verbatim>\<open>isinstance\<close> whether to store it. The values that can reach them are therefore a
  datatype of their own. \<open>'taxon\<close> stands for the class \<^verbatim>\<open>nbt.Taxon\<close>; HOL equality on
  it stands for Python's \<^verbatim>\<open>==\<close> on Taxon objects. \<open>PObject\<close> is any object of another
  class (a float, a dict, ...).
\<close>

datatype 'taxon pyval =
    PNone
  | PBool bool
  | PInt int
  | PStr string
  | PTaxon 'taxon
  | PList "'taxon pyval list"
  | PObject

datatype exception =
    ValueError string
  | KeyError string
  | TypeError string
  | OtherError string

text \<open>
  \<^verbatim>\<open>isinstance(v, int)\<close>: in Python \<^verbatim>\<open>bool\<close> is a subclass of \<^verbatim>\<open>int\<close>, so
  \<^verbatim>\<open>True\<close> and \<^verbatim>\<open>False\<close> pass the test and compare as 1 and 0.
\<close>

fun isinstance_int :: "'taxon pyval \<Rightarrow> bool" where
  "isinstance_int (PInt i) = True"
| "isinstance_int (PBool b) = True"
| "isinstance_int v = False"

fun int_value :: "'taxon pyval \<Rightarrow> int" where
  "int_value (PInt i) = i"
| "int_value (PBool b) = (if b then 1 else 0)"
| "int_value v = 0"

fun isinstance_Taxon :: "'taxon pyval \<Rightarrow> bool" where
  "isinstance_Taxon (PTaxon t) = True"
| "isinstance_Taxon v = False"

fun taxon_value :: "'taxon pyval \<Rightarrow> 'taxon option" where
  "taxon_value (PTaxon t) = Some t"
| "taxon_value v = None"

section \<open>result.py: the class DNAAnalysisResult\<close>

text \<open>
  The private attributes of the class; each record field is also the property getter of
  the same name. A stored integer that was given as a \<^verbatim>\<open>bool\<close> is kept as its
  integer value, which is how every comparison below reads it.
\<close>

record 'taxon DNAAnalysisResult =
  process_id :: string
  seq_length :: "int option"
  obs_taxon :: "'taxon list"
  exp_taxon :: "'taxon option"
  species :: "'taxon option"
  stop_codons :: "int list"
  ambiguities :: "int option"

definition init :: "string \<Rightarrow> 'taxon DNAAnalysisResult" where
  "init pid = \<lparr> process_id = pid, seq_length = None, obs_taxon = [], exp_taxon = None,
     species = None, stop_codons = [], ambiguities = None \<rparr>"

text \<open>
  A method that mutates the object returns the exception it raised, if any, and the state
  of the object when the call ends.
\<close>

type_synonym 'taxon outcome = "exception option \<times> 'taxon DNAAnalysisResult"

definition seq_length_setter ::
  "'taxon pyval \<Rightarrow> 'taxon DNAAnalysisResult \<Rightarrow> 'taxon outcome" where
  "seq_length_setter v r =
     (if \<not> isinstance_int v \<or> int_value v \<le> 0
      then (Some (ValueError ''seq_length must be a positive integer''), r)
      else (None, r\<lparr>seq_length := Some (int_value v)\<rparr>))"

definition obs_taxon_setter ::
  "'taxon pyval \<Rightarrow> 'taxon DNAAnalysisResult \<Rightarrow> 'taxon outcome" where
  "obs_taxon_setter taxa r =
     (case taxa of
        PList items \<Rightarrow>
          if \<not> list_all isinstance_Taxon items
          then (Some (ValueError ''obs_taxon must be a list of Taxon objects''), r)
          else (None, r\<lparr>obs_taxon := List.map_filter taxon_value items\<rparr>)
      | _ \<Rightarrow> (Some (ValueError ''obs_taxon must be a list of Taxon objects''), r))"

definition add_obs_taxon ::
  "'taxon pyval \<Rightarrow> 'taxon DNAAnalysisResult \<Rightarrow> 'taxon outcome" where
  "add_obs_taxon v r =
     (case taxon_value v of
        None \<Rightarrow> (Some (ValueError ''Taxon must be a Taxon object''), r)
      | Some taxon \<Rightarrow>
          if taxon \<notin> set (obs_taxon r)
          then (None, r\<lparr>obs_taxon := obs_taxon r @ [taxon]\<rparr>)
          else (None, r))"

definition exp_taxon_setter ::
  "'taxon pyval \<Rightarrow> 'taxon DNAAnalysisResult \<Rightarrow> 'taxon outcome" where
  "exp_taxon_setter v r =
     (case taxon_value v of
        None \<Rightarrow> (Some (ValueError ''exp_taxon must be a Taxon object''), r)
      | Some taxon \<Rightarrow> (None, r\<lparr>exp_taxon := Some taxon\<rparr>))"

definition species_setter ::
  "'taxon pyval \<Rightarrow> 'taxon DNAAnalysisResult \<Rightarrow> 'taxon outcome" where
  "species_setter v r =
     (case taxon_value v of
        None \<Rightarrow> (Some (ValueError ''species must be a Taxon object''), r)
      | Some taxon \<Rightarrow> (None, r\<lparr>species := Some taxon\<rparr>))"

definition stop_codons_setter ::
  "'taxon pyval \<Rightarrow> 'taxon DNAAnalysisResult \<Rightarrow> 'taxon outcome" where
  "stop_codons_setter codon_positions r =
     (case codon_positions of
        PList items \<Rightarrow>
          if \<not> list_all (\<lambda>x. isinstance_int x \<and> int_value x \<ge> 0) items
          then (Some (ValueError ''stop_codons must be a list of non-negative integers''), r)
          else (None, r\<lparr>stop_codons := map int_value items\<rparr>)
      | _ \<Rightarrow> (Some (ValueError ''stop_codons must be a list of non-negative integers''), r))"

definition ambiguities_setter ::
  "'taxon pyval \<Rightarrow> 'taxon DNAAnalysisResult \<Rightarrow> 'taxon outcome" where
  "ambiguities_setter v r =
     (if \<not> isinstance_int v \<or> int_value v < 0
      then (Some (ValueError ''ambiguities must be a non-negative integer''), r)
      else (None, r\<lparr>ambiguities := Some (int_value v)\<rparr>))"

definition add_stop_codon ::
  "'taxon pyval \<Rightarrow> 'taxon DNAAnalysisResult \<Rightarrow> 'taxon outcome" where
  "add_stop_codon v r =
     (if \<not> isinstance_int v \<or> int_value v < 0
      then (Some (ValueError ''Stop codon position must be a non-negative integer''), r)
      else (None, r\<lparr>stop_codons := stop_codons r @ [int_value v]\<rparr>))"

text \<open>
  The checks. \<open>min_length\<close> is the value of \<^verbatim>\<open>Config().get('min_seq_length')\<close>, an
  integer of the configuration file; the checks read nothing else of the configuration,
  so the value is a parameter.

  In \<^verbatim>\<open>check_taxonomy\<close> the condition \<^verbatim>\<open>self.obs_taxon and self.exp_taxon\<close> reads the
  truth value of both: a list is true when it is not empty, \<^verbatim>\<open>None\<close> is false, and a
  Taxon object is true (the class does not make its objects false).
\<close>

definition check_length :: "int \<Rightarrow> 'taxon DNAAnalysisResult \<Rightarrow> bool" where
  "check_length min_length r =
     (case seq_length r of Some n \<Rightarrow> n \<ge> min_length | None \<Rightarrow> False)"

definition check_taxonomy :: "'taxon DNAAnalysisResult \<Rightarrow> bool" where
  "check_taxonomy r =
     (if obs_taxon r \<noteq> [] \<and> exp_taxon r \<noteq> None
      then (case exp_taxon r of Some t \<Rightarrow> t \<in> set (obs_taxon r) | None \<Rightarrow> False)
      else False)"

definition check_pseudogene :: "'taxon DNAAnalysisResult \<Rightarrow> bool" where
  "check_pseudogene r = (length (stop_codons r) = 0)"

definition passes_all_checks :: "int \<Rightarrow> 'taxon DNAAnalysisResult \<Rightarrow> bool" where
  "passes_all_checks min_length r =
     (check_length min_length r \<and> check_taxonomy r \<and> check_pseudogene r)"

section \<open>taxonomy.py\<close>

text \<open>
  Calls of \<^verbatim>\<open>logging\<close> write to the log and never change a result. They are left out
  of the model, except in \<^verbatim>\<open>run_seqid\<close>, where the log is all that tells an unsupported
  method from a search without result.
\<close>

datatype log_level = DEBUG | INFO | WARNING | ERROR

type_synonym log = "(log_level \<times> string) list"

text \<open>
  \<^verbatim>\<open>str.lower()\<close> on the ASCII letters; the rank names of the configuration are ASCII.
\<close>

definition lower_char :: "char \<Rightarrow> char" where
  "lower_char c =
     (let n = (of_char c :: nat) in if 65 \<le> n \<and> n \<le> 90 then char_of (n + 32) else c)"

definition lower :: "string \<Rightarrow> string" where
  "lower s = map lower_char s"

subsection \<open>The taxonomy tree as collect\_lineages sees it\<close>

text \<open>
  A node of the tree is a \<^verbatim>\<open>Taxon\<close>: \<^verbatim>\<open>collect_lineages\<close> reads its \<^verbatim>\<open>name\<close>, its
  \<^verbatim>\<open>taxonomic_rank\<close> (either may be \<^verbatim>\<open>None\<close>) and its dictionary \<^verbatim>\<open>guids\<close>.
  The tree class belongs to the Bio.Phylo library, not to the repository, so the two
  methods that are called on the tree are taken as they are given: \<open>get_terminals\<close> is the
  list \<^verbatim>\<open>tree.get_terminals()\<close>, and \<open>get_path tip\<close> is \<^verbatim>\<open>tree.root.get_path(tip)\<close>,
  which is \<^verbatim>\<open>None\<close> when the library finds no path.
\<close>

record node =
  name :: "string option"
  taxonomic_rank :: "string option"
  guids :: "(string \<times> string) list"

record tree =
  get_terminals :: "node list"
  get_path :: "node \<Rightarrow> node list option"

text \<open>
  The first loop: \<^verbatim>\<open>tip.guids['taxon']\<close> raises \<^verbatim>\<open>KeyError\<close> on a tip without that key.
\<close>

fun collect_tips :: "string set \<Rightarrow> node list \<Rightarrow> node list \<Rightarrow> exception + node list" where
  "collect_tips taxids [] tips = Inr tips"
| "collect_tips taxids (tip # rest) tips =
     (case map_of (guids tip) ''taxon'' of
        None \<Rightarrow> Inl (KeyError ''taxon'')
      | Some taxid \<Rightarrow>
          collect_tips taxids rest (if taxid \<in> taxids then tips @ [tip] else tips))"

text \<open>
  \<^verbatim>\<open>taxa.update(node.name)\<close>: \<^verbatim>\<open>set.update\<close> takes an iterable and adds each of its
  elements. The elements of a string are its characters, each a string of length one;
  \<^verbatim>\<open>None\<close> is not iterable.
\<close>

definition set_update :: "string set \<Rightarrow> string option \<Rightarrow> exception + string set" where
  "set_update taxa iterable =
     (case iterable of
        None \<Rightarrow> Inl (TypeError ''NoneType object is not iterable'')
      | Some s \<Rightarrow> Inr (taxa \<union> (\<lambda>c. [c]) ` set s))"

fun scan_path :: "string \<Rightarrow> node list \<Rightarrow> string set \<Rightarrow> exception + string set" where
  "scan_path level [] taxa = Inr taxa"
| "scan_path level (n # rest) taxa =
     (if taxonomic_rank n = Some (lower level)
      then (case set_update taxa (name n) of
              Inl e \<Rightarrow> Inl e
            | Inr taxa' \<Rightarrow> scan_path level rest taxa')
      else scan_path level rest taxa)"

fun scan_tips :: "string \<Rightarrow> tree \<Rightarrow> node list \<Rightarrow> string set \<Rightarrow> exception + string set" where
  "scan_tips level t [] taxa = Inr taxa"
| "scan_tips level t (tip # rest) taxa =
     (case get_path t tip of
        None \<Rightarrow> Inl (TypeError ''NoneType object is not iterable'')
      | Some path \<Rightarrow>
          (case scan_path level path taxa of
             Inl e \<Rightarrow> Inl e
           | Inr taxa' \<Rightarrow> scan_tips level t rest taxa'))"

text \<open>
  \<open>level\<close> is \<^verbatim>\<open>str(config.get('level'))\<close>. The function returns \<^verbatim>\<open>list(taxa)\<close>, the
  elements of the set in an order Python does not fix; the model returns the set.
\<close>

definition collect_lineages :: "string set \<Rightarrow> tree \<Rightarrow> string \<Rightarrow> exception + string set" where
  "collect_lineages taxids t level =
     (case collect_tips taxids (get_terminals t) [] of
        Inl e \<Rightarrow> Inl e
      | Inr tips \<Rightarrow> scan_tips level t tips {})"

subsection \<open>The scenario of the specification\<close>

definition root_node :: node where
  "root_node = \<lparr> name = Some ''root'', taxonomic_rank = Some ''no rank'', guids = [] \<rparr>"

definition G1 :: node where
  "G1 = \<lparr> name = Some ''G1'', taxonomic_rank = Some ''genus'', guids = [(''taxon'', ''1'')] \<rparr>"

definition G2 :: node where
  "G2 = \<lparr> name = Some ''G2'', taxonomic_rank = Some ''genus'', guids = [(''taxon'', ''2'')] \<rparr>"

definition T1 :: node where
  "T1 = \<lparr> name = Some ''T1'', taxonomic_rank = Some ''species'', guids = [(''taxon'', ''10'')] \<rparr>"

definition T2 :: node where
  "T2 = \<lparr> name = Some ''T2'', taxonomic_rank = Some ''species'', guids = [(''taxon'', ''11'')] \<rparr>"

definition T3 :: node where
  "T3 = \<lparr> name = Some ''T3'', taxonomic_rank = Some ''species'', guids = [(''taxon'', ''20'')] \<rparr>"

definition scenario_tree :: tree where
  "scenario_tree =
     \<lparr> get_terminals = [T1, T2, T3],
       get_path = (\<lambda>tip. if tip = T1 then Some [G1, T1]
                          else if tip = T2 then Some [G1, T2]
                          else if tip = T3 then Some [G2, T3]
                          else None) \<rparr>"

subsection \<open>run\_seqid\<close>

text \<open>
  \<open>method\<close> is \<^verbatim>\<open>config.get('idcheck')\<close>. The three back ends run external tools and
  network requests; they are parameters, each returning its result or raising. The
  function returns what the back end returns; where no \<^verbatim>\<open>return\<close> statement is reached
  Python returns \<^verbatim>\<open>None\<close>.
\<close>

definition run_seqid ::
  "string \<Rightarrow> ('seq \<Rightarrow> exception + 'res) \<Rightarrow> ('seq \<Rightarrow> exception + 'res) \<Rightarrow>
   ('seq \<Rightarrow> 'tree \<Rightarrow> exception + 'res) \<Rightarrow> 'seq \<Rightarrow> 'tree \<Rightarrow> log \<times> (exception + 'res option)" where
  "run_seqid method run_boldigger2 run_blast run_localblast sequence ncbi_tree =
     (let lg = [(INFO, ''Running sequence ID check'')] in
      if method = ''boldigger2'' then (lg, map_sum id Some (run_boldigger2 sequence))
      else if method = ''blast'' then (lg, map_sum id Some (run_blast sequence))
      else if method = ''localblast'' then (lg, map_sum id Some (run_localblast sequence ncbi_tree))
      else (lg @ [(ERROR, ''Invalid ID check method '' @ [CHR 0x27] @ method @ [CHR 0x27] @
                          '' specified in config file'')],
            Inr None))"

subsection \<open>run\_blast\<close>

text \<open>
  The remote calls are parameters. \<open>qblast sequence\<close> is the list of the accessions of
  \<^verbatim>\<open>record.alignments\<close> for the first record of the search, or the exception that the
  search, its parser or \<^verbatim>\<open>next\<close> raised. \<open>fetch accession\<close> is the \<^verbatim>\<open>LineageEx\<close> of
  the taxonomy record of that hit, as pairs of \<^verbatim>\<open>Rank\<close> and \<^verbatim>\<open>ScientificName\<close>, or the
  exception raised on the way, which the loop catches.
\<close>

text \<open>A dictionary comprehension keeps the last value given for a key.\<close>

definition lineage_dict :: "(string \<times> string) list \<Rightarrow> (string \<rightharpoonup> string)" where
  "lineage_dict pairs = map_of (rev pairs)"

fun fetch_lineages ::
  "(string \<Rightarrow> exception + (string \<times> string) list) \<Rightarrow> string list \<Rightarrow>
   (string \<rightharpoonup> string) list \<Rightarrow> (string \<rightharpoonup> string) list" where
  "fetch_lineages fetch [] lineages = lineages"
| "fetch_lineages fetch (accession # rest) lineages =
     (case fetch accession of
        Inl e \<Rightarrow> fetch_lineages fetch rest lineages
      | Inr pairs \<Rightarrow> fetch_lineages fetch rest (lineages @ [lineage_dict pairs]))"

text \<open>
  \<^verbatim>\<open>list(set(...))\<close> lists the distinct values in an order Python does not fix; the
  model lists them in the order of their first occurrence.
\<close>

definition taxa_at_level :: "string \<Rightarrow> (string \<rightharpoonup> string) list \<Rightarrow> string list" where
  "taxa_at_level target_level lineages =
     remdups (List.map_filter (\<lambda>lineage. lineage target_level) lineages)"

definition run_blast ::
  "string \<Rightarrow> ('seq \<Rightarrow> exception + string list) \<Rightarrow>
   (string \<Rightarrow> exception + (string \<times> string) list) \<Rightarrow> 'seq \<Rightarrow> exception + string list" where
  "run_blast target_level qblast fetch sequence =
     (case qblast sequence of
        Inl e \<Rightarrow> Inl e
      | Inr alignments \<Rightarrow>
          (let top_hits = take 10 alignments;
               lineages = fetch_lineages fetch top_hits [];
               taxa = taxa_at_level target_level lineages
           in if taxa \<noteq> [] then Inr taxa else Inr [''Unknown'']))"

section \<open>Sequences of calls and test doubles\<close>

text \<open>
  The two operations that put taxa into \<^verbatim>\<open>_obs_taxon\<close>, and a caller that applies a
  sequence of them to one result object, going on after a call that raised.
\<close>

datatype 'taxon obs_op = AddObs "'taxon pyval" | SetObs "'taxon pyval"

fun apply_obs_op :: "'taxon obs_op \<Rightarrow> 'taxon DNAAnalysisResult \<Rightarrow> 'taxon DNAAnalysisResult" where
  "apply_obs_op (AddObs v) r = snd (add_obs_taxon v r)"
| "apply_obs_op (SetObs v) r = snd (obs_taxon_setter v r)"

fun run_obs_ops :: "'taxon obs_op list \<Rightarrow> 'taxon DNAAnalysisResult \<Rightarrow> 'taxon DNAAnalysisResult" where
  "run_obs_ops [] r = r"
| "run_obs_ops (x # xs) r = run_obs_ops xs (apply_obs_op x r)"

text \<open>The lists handed to the bulk setter in a sequence of calls name no Taxon twice.\<close>

fun assigns_distinct :: "'taxon obs_op \<Rightarrow> bool" where
  "assigns_distinct (SetObs (PList items)) = distinct (List.map_filter taxon_value items)"
| "assigns_distinct x = True"

text \<open>Back ends for \<^verbatim>\<open>run_seqid\<close> that return a fixed answer.\<close>

definition stub_search :: "unit \<Rightarrow> exception + string list" where
  "stub_search sequence = Inr [''Apis'']"

definition stub_local_search :: "unit \<Rightarrow> unit \<Rightarrow> exception + string list" where
  "stub_local_search sequence ncbi_tree = Inr [''Apis'']"

text \<open>
  Remote services for \<^verbatim>\<open>run_blast\<close>: a search with two hits, and a taxonomy service
  that knows the family of the first hit and fails for every other accession.
\<close>

definition stub_qblast :: "unit \<Rightarrow> exception + string list" where
  "stub_qblast sequence = Inr [''AB000001'', ''AB000002'']"

definition stub_fetch :: "string \<Rightarrow> exception + (string \<times> string) list" where
  "stub_fetch accession =
     (if accession = ''AB000001'' then Inr [(''family'', ''Apidae'')]
      else Inl (OtherError ''HTTP Error 400''))"

text \<open>The result of the scenario of the specification: length 500, observed and expected G1.\<close>

definition scenario_result :: "string DNAAnalysisResult" where
  "scenario_result =
     \<lparr> process_id = ''P1'', seq_length = Some 500, obs_taxon = [''G1''],
       exp_taxon = Some ''G1'', species = None, stop_codons = [], ambiguities = None \<rparr>"

section \<open>The lineage resolver\<close>

text \<open>
  C1. The specification says that resolving the identifiers "10" and "11" at rank genus, in
  the tree with the tips T1 (taxid 10, genus G1), T2 (taxid 11, genus G1) and T3 (taxid 20,
  genus G2), yields exactly the set holding G1. On that input \<^verbatim>\<open>collect_lineages\<close>
  returns the two one-letter strings "G" and "1": it hands the name of the ancestor to
  \<^verbatim>\<open>set.update\<close>, which adds the characters of the name, where \<^verbatim>\<open>set.add\<close> would add
  the name.
\<close>

theorem collect_lineages_scenario:
  "collect_lineages {''10'', ''11''} scenario_tree ''genus'' = Inr {''G'', ''1''}"
  by (simp add: collect_lineages_def scenario_tree_def T1_def T2_def T3_def G1_def G2_def
      set_update_def lower_def lower_char_def insert_commute)

section \<open>The dispatcher of the identification methods\<close>

text \<open>
  C2 as the specification states it: an unsupported method name makes \<^verbatim>\<open>run_seqid\<close> fail
  with an error reported to the caller. It does not: for the method name "vsearch" the call
  ends without an exception and returns \<^verbatim>\<open>None\<close>.
\<close>

theorem run_seqid_unsupported_counterexample:
  "snd (run_seqid ''vsearch'' stub_search stub_search stub_local_search () ()) = Inr None"
  by (simp add: run_seqid_def)

text \<open>
  C2, amended. For every method name other than "boldigger2", "blast" and "localblast",
  \<^verbatim>\<open>run_seqid\<close> calls none of the back ends, writes one message at level ERROR that
  names the method, raises nothing and returns \<^verbatim>\<open>None\<close>.
\<close>

theorem run_seqid_unsupported:
  assumes "method \<noteq> ''boldigger2''" and "method \<noteq> ''blast''" and "method \<noteq> ''localblast''"
  shows "run_seqid method run_boldigger2 run_blast' run_localblast sequence ncbi_tree =
    ([(INFO, ''Running sequence ID check''),
      (ERROR, ''Invalid ID check method '' @ [CHR 0x27] @ method @ [CHR 0x27] @
              '' specified in config file'')],
     Inr None)"
  using assms by (simp add: run_seqid_def)

theorem run_seqid_unsupported_witness:
  "''vsearch'' \<noteq> ''boldigger2'' \<and> ''vsearch'' \<noteq> ''blast'' \<and> ''vsearch'' \<noteq> ''localblast'' \<and>
   run_seqid ''vsearch'' stub_search stub_search stub_local_search () () =
     ([(INFO, ''Running sequence ID check''),
       (ERROR, ''Invalid ID check method '' @ [CHR 0x27] @ ''vsearch'' @ [CHR 0x27] @
               '' specified in config file'')],
      Inr None)"
  using run_seqid_unsupported [of "''vsearch''" stub_search stub_search stub_local_search "()" "()"]
  by simp

section \<open>The observed taxa\<close>

text \<open>
  C3 as the specification states it: after any sequence of \<^verbatim>\<open>add_obs_taxon\<close> calls and
  bulk assignments the stored list holds no Taxon twice. The bulk setter stores the list
  it is given: assigning a list that names G1 twice to a new result leaves G1 twice in it.
\<close>

theorem obs_taxon_setter_counterexample:
  "\<not> distinct (obs_taxon (snd (obs_taxon_setter (PList [PTaxon ''G1'', PTaxon ''G1''])
                                 (init ''P1''))))"
  by (simp add: obs_taxon_setter_def init_def List.map_filter_simps)

lemma add_obs_taxon_distinct:
  "distinct (obs_taxon r) \<Longrightarrow> distinct (obs_taxon (snd (add_obs_taxon v r)))"
  by (simp add: add_obs_taxon_def split: option.splits)

lemma obs_taxon_setter_distinct:
  assumes "distinct (obs_taxon r)" and "assigns_distinct (SetObs v)"
  shows "distinct (obs_taxon (snd (obs_taxon_setter v r)))"
proof (cases v)
  case (PList items)
  with assms show ?thesis by (simp add: obs_taxon_setter_def)
next
  case PNone
  with assms(1) show ?thesis by (simp add: obs_taxon_setter_def)
next
  case (PBool b)
  with assms(1) show ?thesis by (simp add: obs_taxon_setter_def)
next
  case (PInt i)
  with assms(1) show ?thesis by (simp add: obs_taxon_setter_def)
next
  case (PStr s)
  with assms(1) show ?thesis by (simp add: obs_taxon_setter_def)
next
  case (PTaxon t)
  with assms(1) show ?thesis by (simp add: obs_taxon_setter_def)
next
  case PObject
  with assms(1) show ?thesis by (simp add: obs_taxon_setter_def)
qed

lemma apply_obs_op_distinct:
  "distinct (obs_taxon r) \<Longrightarrow> assigns_distinct x \<Longrightarrow> distinct (obs_taxon (apply_obs_op x r))"
  by (cases x) (simp_all add: add_obs_taxon_distinct obs_taxon_setter_distinct)

lemma run_obs_ops_distinct:
  "distinct (obs_taxon r) \<Longrightarrow> list_all assigns_distinct ops \<Longrightarrow>
   distinct (obs_taxon (run_obs_ops ops r))"
  by (induction ops arbitrary: r) (simp_all add: apply_obs_op_distinct)

text \<open>
  C3, amended. \<^verbatim>\<open>add_obs_taxon\<close> never stores a duplicate: for a Taxon that is already
  in the list it raises nothing and leaves the result as it is. The bulk setter stores
  the list it is given. So on a result whose list holds no Taxon twice (a new result has
  the empty list), after any sequence of \<^verbatim>\<open>add_obs_taxon\<close> calls and of bulk assignments
  of lists that name no Taxon twice, the stored list holds no Taxon twice.
\<close>

theorem obs_taxon_no_duplicates:
  "(t \<in> set (obs_taxon r) \<longrightarrow> add_obs_taxon (PTaxon t) r = (None, r)) \<and>
   obs_taxon (init pid) = [] \<and>
   (distinct (obs_taxon r) \<and> list_all assigns_distinct ops \<longrightarrow>
      distinct (obs_taxon (run_obs_ops ops r)))"
  by (simp add: add_obs_taxon_def init_def run_obs_ops_distinct)

theorem obs_taxon_no_duplicates_witness:
  "add_obs_taxon (PTaxon ''G1'') scenario_result = (None, scenario_result) \<and>
   obs_taxon (run_obs_ops [AddObs (PTaxon ''G1''), AddObs (PTaxon ''G2''), AddObs PNone,
        SetObs (PList [PTaxon ''G2'', PTaxon ''G3'']), AddObs (PTaxon ''G2'')] scenario_result)
     = [''G2'', ''G3''] \<and>
   distinct (obs_taxon (run_obs_ops [AddObs (PTaxon ''G1''), AddObs (PTaxon ''G2''), AddObs PNone,
        SetObs (PList [PTaxon ''G2'', PTaxon ''G3'']), AddObs (PTaxon ''G2'')] scenario_result))"
  using obs_taxon_no_duplicates [of "''G1''" scenario_result "''P1''"
      "[AddObs (PTaxon ''G1''), AddObs (PTaxon ''G2''), AddObs PNone,
        SetObs (PList [PTaxon ''G2'', PTaxon ''G3'']), AddObs (PTaxon ''G2'')]"]
  by (simp add: scenario_result_def add_obs_taxon_def obs_taxon_setter_def
      List.map_filter_simps)

section \<open>Validation in the setters\<close>

text \<open>
  C4. A setter that is given an invalid value raises \<^verbatim>\<open>ValueError\<close> and leaves the
  result object as it was, the targeted field included: a sequence length that is not an
  integer or not positive; an ambiguity count or a stop-codon position that is not an
  integer or is negative; a list of stop-codon positions with such an element; a value
  that is not a Taxon given as expected taxon, as species or as observed taxon. An integer
  is what \<^verbatim>\<open>isinstance(v, int)\<close> accepts, which includes the two values of \<^verbatim>\<open>bool\<close>.
\<close>

theorem setters_reject_invalid:
  "(\<not> isinstance_int v \<or> int_value v \<le> 0 \<longrightarrow>
      seq_length_setter v r =
        (Some (ValueError ''seq_length must be a positive integer''), r)) \<and>
   (\<not> isinstance_int v \<or> int_value v < 0 \<longrightarrow>
      ambiguities_setter v r =
        (Some (ValueError ''ambiguities must be a non-negative integer''), r)) \<and>
   (\<not> isinstance_int v \<or> int_value v < 0 \<longrightarrow>
      add_stop_codon v r =
        (Some (ValueError ''Stop codon position must be a non-negative integer''), r)) \<and>
   (\<not> list_all (\<lambda>x. isinstance_int x \<and> int_value x \<ge> 0) items \<longrightarrow>
      stop_codons_setter (PList items) r =
        (Some (ValueError ''stop_codons must be a list of non-negative integers''), r)) \<and>
   (\<not> isinstance_Taxon v \<longrightarrow>
      exp_taxon_setter v r = (Some (ValueError ''exp_taxon must be a Taxon object''), r)) \<and>
   (\<not> isinstance_Taxon v \<longrightarrow>
      species_setter v r = (Some (ValueError ''species must be a Taxon object''), r)) \<and>
   (\<not> isinstance_Taxon v \<longrightarrow>
      add_obs_taxon v r = (Some (ValueError ''Taxon must be a Taxon object''), r))"
  by (cases v) (simp_all add: seq_length_setter_def ambiguities_setter_def add_stop_codon_def
      stop_codons_setter_def exp_taxon_setter_def species_setter_def add_obs_taxon_def)

theorem setters_reject_invalid_witness:
  "seq_length_setter (PInt 0) scenario_result =
     (Some (ValueError ''seq_length must be a positive integer''), scenario_result) \<and>
   ambiguities_setter (PInt (- 1)) scenario_result =
     (Some (ValueError ''ambiguities must be a non-negative integer''), scenario_result) \<and>
   add_stop_codon (PInt (- 1)) scenario_result =
     (Some (ValueError ''Stop codon position must be a non-negative integer''), scenario_result) \<and>
   stop_codons_setter (PList [PInt 3, PStr ''4'']) scenario_result =
     (Some (ValueError ''stop_codons must be a list of non-negative integers''), scenario_result) \<and>
   exp_taxon_setter (PStr ''G2'') scenario_result =
     (Some (ValueError ''exp_taxon must be a Taxon object''), scenario_result) \<and>
   species_setter (PStr ''G2'') scenario_result =
     (Some (ValueError ''species must be a Taxon object''), scenario_result) \<and>
   add_obs_taxon (PStr ''G2'') scenario_result =
     (Some (ValueError ''Taxon must be a Taxon object''), scenario_result) \<and>
   seq_length scenario_result = Some 500 \<and> exp_taxon scenario_result = Some ''G1''"
  using setters_reject_invalid [of "PInt 0" scenario_result "[PInt 3, PStr ''4'']"]
    setters_reject_invalid [of "PInt (- 1)" scenario_result "[PInt 3, PStr ''4'']"]
    setters_reject_invalid [of "PStr ''G2''" scenario_result "[PInt 3, PStr ''4'']"]
  by (simp add: scenario_result_def)

section \<open>The checks\<close>

text \<open>
  C5. \<^verbatim>\<open>passes_all_checks\<close> is true exactly when \<^verbatim>\<open>check_length\<close>,
  \<^verbatim>\<open>check_taxonomy\<close> and \<^verbatim>\<open>check_pseudogene\<close> are all true on the same result; when
  any one of the three is false, so is \<^verbatim>\<open>passes_all_checks\<close>.
\<close>

theorem passes_all_checks_conjunction:
  "(passes_all_checks m r \<longleftrightarrow> check_length m r \<and> check_taxonomy r \<and> check_pseudogene r) \<and>
   (\<not> check_length m r \<longrightarrow> \<not> passes_all_checks m r) \<and>
   (\<not> check_taxonomy r \<longrightarrow> \<not> passes_all_checks m r) \<and>
   (\<not> check_pseudogene r \<longrightarrow> \<not> passes_all_checks m r)"
  by (simp add: passes_all_checks_def)

theorem passes_all_checks_conjunction_witness:
  "passes_all_checks 300 scenario_result \<and>
   \<not> check_pseudogene (snd (add_stop_codon (PInt 45) scenario_result)) \<and>
   \<not> passes_all_checks 300 (snd (add_stop_codon (PInt 45) scenario_result)) \<and>
   \<not> check_length 501 scenario_result \<and> \<not> passes_all_checks 501 scenario_result \<and>
   \<not> check_taxonomy (snd (exp_taxon_setter (PTaxon ''G2'') scenario_result)) \<and>
   \<not> passes_all_checks 300 (snd (exp_taxon_setter (PTaxon ''G2'') scenario_result))"
  using passes_all_checks_conjunction [of 300 scenario_result]
    passes_all_checks_conjunction [of 300 "snd (add_stop_codon (PInt 45) scenario_result)"]
    passes_all_checks_conjunction [of 501 scenario_result]
    passes_all_checks_conjunction [of 300 "snd (exp_taxon_setter (PTaxon ''G2'') scenario_result)"]
  by (simp add: scenario_result_def check_length_def check_taxonomy_def check_pseudogene_def
      add_stop_codon_def exp_taxon_setter_def)

text \<open>
  C6. With the minimum length \<open>m\<close> of the configuration, \<^verbatim>\<open>check_length\<close> returns
  false on a result whose sequence length is not set, and on a result with length \<open>n\<close>
  it returns true exactly when \<open>n \<ge> m\<close>: false for \<open>m - 1\<close>, true for \<open>m\<close>.
\<close>

theorem check_length_threshold:
  "(seq_length r = None \<longrightarrow> \<not> check_length m r) \<and>
   (seq_length r = Some n \<longrightarrow> (check_length m r \<longleftrightarrow> n \<ge> m)) \<and>
   (seq_length r = Some (m - 1) \<longrightarrow> \<not> check_length m r) \<and>
   (seq_length r = Some m \<longrightarrow> check_length m r)"
  by (simp add: check_length_def)

theorem check_length_threshold_witness:
  "\<not> check_length 300 (init ''P1'' :: string DNAAnalysisResult) \<and>
   check_length 300 scenario_result \<and>
   \<not> check_length 300 (snd (seq_length_setter (PInt 299) scenario_result)) \<and>
   check_length 300 (snd (seq_length_setter (PInt 300) scenario_result))"
  using check_length_threshold [of "init ''P1'' :: string DNAAnalysisResult" 300 0]
    check_length_threshold [of scenario_result 300 500]
    check_length_threshold [of "snd (seq_length_setter (PInt 299) scenario_result)" 300 299]
    check_length_threshold [of "snd (seq_length_setter (PInt 300) scenario_result)" 300 300]
  by (simp add: init_def scenario_result_def seq_length_setter_def)

text \<open>
  C7. \<^verbatim>\<open>check_taxonomy\<close> returns true exactly when the expected taxon is set, the list
  of observed taxa is not empty and the expected taxon is one of the observed taxa; it
  returns false when the expected taxon is not set or no taxon was observed, whatever the
  other holds.
\<close>

theorem check_taxonomy_membership:
  "(check_taxonomy r \<longleftrightarrow>
      (\<exists>t. exp_taxon r = Some t \<and> obs_taxon r \<noteq> [] \<and> t \<in> set (obs_taxon r))) \<and>
   (exp_taxon r = None \<or> obs_taxon r = [] \<longrightarrow> \<not> check_taxonomy r)"
  by (auto simp add: check_taxonomy_def split: option.splits)

theorem check_taxonomy_membership_witness:
  "check_taxonomy scenario_result \<and>
   \<not> check_taxonomy (snd (obs_taxon_setter (PList []) scenario_result)) \<and>
   \<not> check_taxonomy (snd (add_obs_taxon (PTaxon ''G1'') (init ''P1'')))"
  using check_taxonomy_membership [of scenario_result]
    check_taxonomy_membership [of "snd (obs_taxon_setter (PList []) scenario_result)"]
    check_taxonomy_membership [of "snd (add_obs_taxon (PTaxon ''G1'') (init ''P1''))"]
  by (simp add: scenario_result_def init_def obs_taxon_setter_def add_obs_taxon_def)

text \<open>
  C8. \<^verbatim>\<open>check_pseudogene\<close> returns true exactly when the list of stop-codon positions
  is empty; \<^verbatim>\<open>add_stop_codon\<close> with a non-negative integer raises nothing, and after it
  \<^verbatim>\<open>check_pseudogene\<close> returns false.
\<close>

theorem check_pseudogene_stop_codons:
  "(check_pseudogene r \<longleftrightarrow> stop_codons r = []) \<and>
   (isinstance_int p \<and> int_value p \<ge> 0 \<longrightarrow>
      fst (add_stop_codon p r) = None \<and> \<not> check_pseudogene (snd (add_stop_codon p r)))"
  by (simp add: check_pseudogene_def add_stop_codon_def)

theorem check_pseudogene_stop_codons_witness:
  "check_pseudogene scenario_result \<and>
   fst (add_stop_codon (PInt 45) scenario_result) = None \<and>
   \<not> check_pseudogene (snd (add_stop_codon (PInt 45) scenario_result))"
  using check_pseudogene_stop_codons [of scenario_result "PInt 45"]
  by (simp add: scenario_result_def)

section \<open>The consensus of the remote search\<close>

lemma map_filter_empty_iff:
  "List.map_filter f xs = [] \<longleftrightarrow> (\<forall>x \<in> set xs. f x = None)"
  by (induction xs) (auto simp add: List.map_filter_simps split: option.splits)

text \<open>
  C9. When the search of \<^verbatim>\<open>run_blast\<close> has returned its hits and none of the lineages
  fetched for the first ten of them has an entry at the target rank (which includes the
  case that no lineage could be fetched at all), \<^verbatim>\<open>run_blast\<close> raises nothing and
  returns the list whose only element is "Unknown".
\<close>

theorem run_blast_unknown:
  assumes "qblast sequence = Inr alignments"
    and "\<forall>lineage \<in> set (fetch_lineages fetch (take 10 alignments) []).
           lineage target_level = None"
  shows "run_blast target_level qblast fetch sequence = Inr [''Unknown'']"
proof -
  have "taxa_at_level target_level (fetch_lineages fetch (take 10 alignments) []) = []"
    using assms(2) by (simp add: taxa_at_level_def map_filter_empty_iff)
  with assms(1) show ?thesis by (simp add: run_blast_def)
qed

theorem run_blast_unknown_witness:
  "stub_qblast () = Inr [''AB000001'', ''AB000002''] \<and>
   length (fetch_lineages stub_fetch (take 10 [''AB000001'', ''AB000002'']) []) = 1 \<and>
   run_blast ''genus'' stub_qblast stub_fetch () = Inr [''Unknown'']"
  using run_blast_unknown [of stub_qblast "()" "[''AB000001'', ''AB000002'']" stub_fetch "''genus''"]
  by (simp add: stub_qblast_def stub_fetch_def lineage_dict_def)

section \<open>What the checks read\<close>

text \<open>
  C10. Assigning any value to \<^verbatim>\<open>species\<close> or to \<^verbatim>\<open>ambiguities\<close>, accepted or
  rejected, changes the value of none of \<^verbatim>\<open>check_length\<close>, \<^verbatim>\<open>check_taxonomy\<close>,
  \<^verbatim>\<open>check_pseudogene\<close> and \<^verbatim>\<open>passes_all_checks\<close>.
\<close>

theorem checks_ignore_species_and_ambiguities:
  "check_length m (snd (species_setter v r)) = check_length m r \<and>
   check_taxonomy (snd (species_setter v r)) = check_taxonomy r \<and>
   check_pseudogene (snd (species_setter v r)) = check_pseudogene r \<and>
   passes_all_checks m (snd (species_setter v r)) = passes_all_checks m r \<and>
   check_length m (snd (ambiguities_setter w r)) = check_length m r \<and>
   check_taxonomy (snd (ambiguities_setter w r)) = check_taxonomy r \<and>
   check_pseudogene (snd (ambiguities_setter w r)) = check_pseudogene r \<and>
   passes_all_checks m (snd (ambiguities_setter w r)) = passes_all_checks m r"
  by (simp add: species_setter_def ambiguities_setter_def passes_all_checks_def
      check_length_def check_taxonomy_def check_pseudogene_def split: option.splits)

theorem checks_ignore_species_and_ambiguities_witness:
  "species (snd (species_setter (PTaxon ''G1 alba'') scenario_result)) = Some ''G1 alba'' \<and>
   ambiguities (snd (ambiguities_setter (PInt 7) scenario_result)) = Some 7 \<and>
   passes_all_checks 300 (snd (species_setter (PTaxon ''G1 alba'') scenario_result)) =
     passes_all_checks 300 scenario_result \<and>
   passes_all_checks 300 (snd (ambiguities_setter (PInt 7) scenario_result)) =
     passes_all_checks 300 scenario_result"
  using checks_ignore_species_and_ambiguities
    [of 300 "PTaxon ''G1 alba''" scenario_result "PInt 7"]
  by (simp add: species_setter_def ambiguities_setter_def scenario_result_def)

end
